theory Spec2Isabelle
  imports Complex_Main "HOL-Library.Sublist"
begin

section \<open>The transaction signing service: POST /sign-payment\<close>

text \<open>
  A shallow embedding of \<^verbatim>\<open>src/tx-signing-service/index.js\<close>. The handler of
  \<^verbatim>\<open>POST /sign-payment\<close> is one JavaScript function with early returns and one
  surrounding try/catch. It is embedded as a pure function of
  \<^item> the process configuration (the environment variables read at start),
  \<^item> the request (the \<^verbatim>\<open>x-api-key\<close> header and the four body fields),
  \<^item> the identity service answering \<^verbatim>\<open>fetch\<close>, and
  \<^item> the chain client (the ethers library), a state machine whose state is threaded
    through the calls the handler makes.
  It returns the HTTP response and the list of external calls made, in order. An
  early \<^verbatim>\<open>return res.status(...)\<close> is the value \<open>Inr response\<close>, a thrown
  exception is \<open>Inl error\<close>; the catch block turns the latter into a response.

  Scope of the embedding. Strings are lists of code units below 256. The four body
  fields are JSON strings or absent, as the API documents them; JSON numbers,
  booleans, null, arrays and objects in their place are not modelled, and the body is
  an object (\<^verbatim>\<open>express.json()\<close> leaves \<^verbatim>\<open>{}\<close> when nothing was parsed).
  \<^verbatim>\<open>COMMISSION_RATE\<close> is an IEEE 754 double: a finite double is the rational it
  denotes, and the product \<^verbatim>\<open>COMMISSION_RATE * 10000\<close> is rounded to the nearest
  double, ties to even, with overflow to an infinity, as the source computes it.
  Console output is not part of the result, but a log line that can throw is a
  branch of the model.
\<close>

subsection \<open>JavaScript values the handler tests\<close>

text \<open>\<^verbatim>\<open>process.env.X\<close>, a header and a body field: a string, or undefined.\<close>

type_synonym js_string = "string option"

text \<open>\<^verbatim>\<open>!v\<close> is false exactly when the string is present and not empty.\<close>

definition truthy :: "js_string \<Rightarrow> bool" where
  "truthy v = (case v of None \<Rightarrow> False | Some s \<Rightarrow> s \<noteq> [])"

text \<open>\<^verbatim>\<open>process.env.X || 'default'\<close>\<close>

definition orDefault :: "js_string \<Rightarrow> string \<Rightarrow> string" where
  "orDefault v d = (case v of None \<Rightarrow> d | Some s \<Rightarrow> if s = [] then d else s)"

text \<open>
  A JavaScript number: a finite double (the rational it denotes), NaN or an infinity.
  \<^verbatim>\<open>parseFloat(...)\<close> yields any of them.
\<close>

datatype number = Finite rat | NaN | PosInfinity | NegInfinity

subsection \<open>Double arithmetic\<close>

text \<open>The number of binary digits of a positive integer.\<close>

function bitLength :: "int \<Rightarrow> int" where
  "bitLength n = (if n \<le> 0 then 0 else 1 + bitLength (n div 2))"
  by pat_completeness auto
termination
  by (relation "measure nat") auto

declare bitLength.simps [simp del]

text \<open>
  The binary exponent of a positive rational \<open>a\<close>: the \<open>e\<close> with
  \<open>2 powi e \<le> a < 2 powi (e + 1)\<close>, found from the bit lengths of numerator and
  denominator.
\<close>

definition binade :: "rat \<Rightarrow> int" where
  "binade a =
    (case quotient_of a of (p, q) \<Rightarrow>
       let d = bitLength p - bitLength q in if 2 powi d \<le> a then d else d - 1)"

text \<open>The nearest integer, a tie going to the even one.\<close>

definition roundHalfEven :: "rat \<Rightarrow> int" where
  "roundHalfEven m =
    (let f = \<lfloor>m\<rfloor>; r = m - of_int f in
     if r < 1 / 2 then f else if 1 / 2 < r then f + 1 else if even f then f else f + 1)"

text \<open>
  Rounding of an exact result to binary64, before the range check: the nearest
  multiple of the spacing of the doubles around \<open>x\<close>. The spacing is
  \<open>2 powi (e - 52)\<close> in the binade \<open>e\<close>, and \<open>2 powi (- 1074)\<close> for the
  subnormal numbers.
\<close>

definition roundDouble :: "rat \<Rightarrow> rat" where
  "roundDouble x =
    (if x = 0 then 0
     else let q = 2 powi (max (binade \<bar>x\<bar>) (- 1022) - 52)
          in sgn x * of_int (roundHalfEven (\<bar>x\<bar> / q)) * q)"

text \<open>
  The double of an exact result: a rounded value of magnitude \<open>2 ^ 1024\<close> or more
  is an infinity.
\<close>

definition toDouble :: "rat \<Rightarrow> number" where
  "toDouble x =
    (let y = roundDouble x in
     if of_int (2 ^ 1024) \<le> y then PosInfinity
     else if y \<le> - of_int (2 ^ 1024) then NegInfinity
     else Finite y)"

text \<open>
  A property read \<^verbatim>\<open>obj[key]\<close> on an object literal: the object's own property, a
  member inherited from \<^verbatim>\<open>Object.prototype\<close> (a function, or the prototype itself
  for \<^verbatim>\<open>__proto__\<close>), or undefined.
\<close>

datatype 'a lookup = Own 'a | Inherited string | Absent

definition objectPrototype :: "string list" where
  "objectPrototype =
    [''constructor'', ''__defineGetter__'', ''__defineSetter__'', ''hasOwnProperty'',
     ''__lookupGetter__'', ''__lookupSetter__'', ''isPrototypeOf'',
     ''propertyIsEnumerable'', ''toString'', ''valueOf'', ''__proto__'',
     ''toLocaleString'']"

definition getProp :: "(string \<times> 'a) list \<Rightarrow> string \<Rightarrow> 'a lookup" where
  "getProp obj k =
    (case map_of obj k of
       Some v \<Rightarrow> Own v
     | None \<Rightarrow> if k \<in> set objectPrototype then Inherited k else Absent)"

text \<open>\<^verbatim>\<open>Object.keys(obj)\<close>\<close>

definition objectKeys :: "(string \<times> 'a) list \<Rightarrow> string list" where
  "objectKeys obj = map fst obj"

text \<open>Truthiness of a string-valued property: an inherited member is an object.\<close>

definition truthyProp :: "string lookup \<Rightarrow> bool" where
  "truthyProp p = (case p of Own s \<Rightarrow> s \<noteq> [] | Inherited k \<Rightarrow> True | Absent \<Rightarrow> False)"

text \<open>
  \<^verbatim>\<open>`${p}`\<close>: a native function prints as V8 prints it, \<^verbatim>\<open>Object.prototype\<close> as an
  object.
\<close>

definition propToString :: "string lookup \<Rightarrow> string" where
  "propToString p =
    (case p of
       Own s \<Rightarrow> s
     | Inherited k \<Rightarrow>
         if k = ''__proto__'' then ''[object Object]''
         else ''function '' @ (if k = ''constructor'' then ''Object'' else k)
              @ ''() { [native code] }''
     | Absent \<Rightarrow> ''undefined'')"

subsection \<open>BigInt\<close>

text \<open>
  \<^verbatim>\<open>BigInt(string)\<close> (StringToBigInt): white space is trimmed; the empty string
  is 0; otherwise decimal digits with an optional sign, or an unsigned literal with
  prefix 0x, 0o or 0b. Anything else is a SyntaxError, here \<open>None\<close>.
\<close>

definition isStrWhiteSpaceChar :: "char \<Rightarrow> bool" where
  "isStrWhiteSpaceChar c = (of_char c \<in> {9, 10, 11, 12, 13, 32, 160 :: int})"

definition trimString :: "string \<Rightarrow> string" where
  "trimString s =
    rev (dropWhile isStrWhiteSpaceChar (rev (dropWhile isStrWhiteSpaceChar s)))"

definition digitValue :: "char \<Rightarrow> int option" where
  "digitValue c =
    (let n = of_char c :: int in
     if 48 \<le> n \<and> n \<le> 57 then Some (n - 48)
     else if 97 \<le> n \<and> n \<le> 122 then Some (n - 87)
     else if 65 \<le> n \<and> n \<le> 90 then Some (n - 55)
     else None)"

fun digitsValue :: "int \<Rightarrow> int \<Rightarrow> string \<Rightarrow> int option" where
  "digitsValue radix acc [] = Some acc"
| "digitsValue radix acc (c # cs) =
    (case digitValue c of
       None \<Rightarrow> None
     | Some d \<Rightarrow> if d < radix then digitsValue radix (acc * radix + d) cs else None)"

text \<open>One or more digits of the radix.\<close>

definition parseDigits :: "int \<Rightarrow> string \<Rightarrow> int option" where
  "parseDigits radix ds = (if ds = [] then None else digitsValue radix 0 ds)"

definition StringToBigInt :: "string \<Rightarrow> int option" where
  "StringToBigInt str =
    (let t = trimString str in
     if t = [] then Some 0
     else if take 2 t = ''0x'' \<or> take 2 t = ''0X'' then parseDigits 16 (drop 2 t)
     else if take 2 t = ''0o'' \<or> take 2 t = ''0O'' then parseDigits 8 (drop 2 t)
     else if take 2 t = ''0b'' \<or> take 2 t = ''0B'' then parseDigits 2 (drop 2 t)
     else if hd t = CHR ''+'' then parseDigits 10 (tl t)
     else if hd t = CHR ''-'' then map_option uminus (parseDigits 10 (tl t))
     else parseDigits 10 t)"

text \<open>\<^verbatim>\<open>a / b\<close> on BigInt rounds towards zero (the divisor below is never 0).\<close>

definition bigintDiv :: "int \<Rightarrow> int \<Rightarrow> int" where
  "bigintDiv a b = sgn a * sgn b * (\<bar>a\<bar> div \<bar>b\<bar>)"

text \<open>\<^verbatim>\<open>n.toString()\<close>: decimal digits, with a minus sign below zero.\<close>

function decimalDigits :: "int \<Rightarrow> string" where
  "decimalDigits n =
    (if n < 10 then [char_of (48 + n)]
     else decimalDigits (n div 10) @ [char_of (48 + n mod 10)])"
  by pat_completeness auto
termination
  by (relation "measure nat") auto

declare decimalDigits.simps [simp del]

definition bigintToString :: "int \<Rightarrow> string" where
  "bigintToString n = (if n < 0 then CHR ''-'' # decimalDigits (- n) else decimalDigits n)"

subsection \<open>The commission split (step 5 of the handler)\<close>

text \<open>
  \<^verbatim>\<open>Math.floor(COMMISSION_RATE * 10000)\<close> for a finite rate whose product is finite:
  the floor of the double product.
\<close>

definition commissionBasisPoints :: "rat \<Rightarrow> int" where
  "commissionBasisPoints rate = \<lfloor>roundDouble (rate * 10000)\<rfloor>"

text \<open>
  \<^verbatim>\<open>totalAmountBN * BigInt(Math.floor(COMMISSION_RATE * 10000)) / BigInt(10000)\<close>
\<close>

definition commissionAmountBN :: "rat \<Rightarrow> int \<Rightarrow> int" where
  "commissionAmountBN rate totalAmountBN =
    bigintDiv (totalAmountBN * commissionBasisPoints rate) 10000"

text \<open>\<^verbatim>\<open>totalAmountBN - commissionAmountBN\<close>\<close>

definition merchantAmountBN :: "rat \<Rightarrow> int \<Rightarrow> int" where
  "merchantAmountBN rate totalAmountBN = totalAmountBN - commissionAmountBN rate totalAmountBN"

subsection \<open>Configuration (the module constants, lines 23 to 77)\<close>

text \<open>
  The environment as read when the module loads. \<open>COMMISSION_RATE\<close> is the module
  constant itself: \<^verbatim>\<open>parseFloat(process.env.COMMISSION_RATE || '0.005')\<close>.
\<close>

record config =
  GATEWAY_PRIVATE_KEY :: js_string
  env_AGENTPAY_API_URL :: js_string
  OWNER_API_KEY :: js_string
  COMMISSION_RATE :: number
  COMMISSION_ADDRESS :: js_string
  BASE_RPC :: js_string
  ETHEREUM_RPC :: js_string
  POLYGON_RPC :: js_string
  ARBITRUM_RPC :: js_string

definition AGENTPAY_API_URL :: "config \<Rightarrow> string" where
  "AGENTPAY_API_URL cfg = orDefault (env_AGENTPAY_API_URL cfg) ''https://api.agentgatepay.com''"

record token_config =
  decimals :: nat
  contracts :: "(string \<times> string) list"

definition TOKENS :: "(string \<times> token_config) list" where
  "TOKENS =
    [(''USDC'', \<lparr>decimals = 6, contracts =
        [(''base'', ''0x833589fCD6eDb6E08f4c7C32D4f71b54bdA02913''),
         (''ethereum'', ''0xA0b86991c6218b36c1d19D4a2e9Eb0cE3606eB48''),
         (''polygon'', ''0x3c499c542cEF5E3811e1192ce70d8cC03d5c3359''),
         (''arbitrum'', ''0xaf88d065e77c8cC2239327C5EDb3A432268e5831'')]\<rparr>),
     (''USDT'', \<lparr>decimals = 6, contracts =
        [(''ethereum'', ''0xdAC17F958D2ee523a2206206994597C13D831ec7''),
         (''polygon'', ''0xc2132D05D31c914a87C6611C10748AEb04B58e8F''),
         (''arbitrum'', ''0xFd086bC7CD5C481DCC9C85ebE478A1C0b69FCbb9'')]\<rparr>),
     (''DAI'', \<lparr>decimals = 18, contracts =
        [(''base'', ''0x50c5725949A6F0c72E6C4a641F24049A917DB0Cb''),
         (''ethereum'', ''0x6B175474E89094C44Da98b954EedeAC495271d0F''),
         (''polygon'', ''0x8f3Cf7ad23Cd3CaDbD9735AFf958023239c6A063''),
         (''arbitrum'', ''0xDA10009cBd5D07dd0CeCc66161FC93D7c9000da1'')]\<rparr>)]"

definition RPCS :: "config \<Rightarrow> (string \<times> string) list" where
  "RPCS cfg =
    [(''base'', orDefault (BASE_RPC cfg) ''https://mainnet.base.org''),
     (''ethereum'', orDefault (ETHEREUM_RPC cfg) ''https://cloudflare-eth.com''),
     (''polygon'', orDefault (POLYGON_RPC cfg) ''https://polygon-rpc.com''),
     (''arbitrum'', orDefault (ARBITRUM_RPC cfg) ''https://arb1.arbitrum.io/rpc'')]"

definition EXPLORERS :: "(string \<times> string) list" where
  "EXPLORERS =
    [(''base'', ''https://basescan.org''),
     (''ethereum'', ''https://etherscan.io''),
     (''polygon'', ''https://polygonscan.com''),
     (''arbitrum'', ''https://arbiscan.io'')]"

subsection \<open>Errors, responses and the collaborators\<close>

text \<open>A thrown value, as the catch block reads it: \<^verbatim>\<open>error.code\<close>, \<^verbatim>\<open>error.message\<close>.\<close>

datatype js_error = JsError (errorCode: js_string) (errorMessage: string)

text \<open>\<^verbatim>\<open>throw new Error(msg)\<close> and the errors the engine raises carry no code.\<close>

definition newError :: "string \<Rightarrow> js_error" where
  "newError msg = JsError None msg"

definition quoted :: "string \<Rightarrow> string" where
  "quoted s = [CHR 0x27] @ s @ [CHR 0x27]"

text \<open>Reading a property of undefined or null (V8's wording of the TypeError).\<close>

definition readOfUndefined :: "string \<Rightarrow> js_error" where
  "readOfUndefined k =
    newError (''Cannot read properties of undefined (reading '' @ quoted k @ '')'')"

definition readOfNull :: "string \<Rightarrow> js_error" where
  "readOfNull k = newError (''Cannot read properties of null (reading '' @ quoted k @ '')'')"

text \<open>The SyntaxError of \<^verbatim>\<open>BigInt(string)\<close>, the RangeError of \<^verbatim>\<open>BigInt(number)\<close>.\<close>

definition bigintSyntaxError :: "string \<Rightarrow> js_error" where
  "bigintSyntaxError s = newError (''Cannot convert '' @ s @ '' to a BigInt'')"

definition bigintRangeError :: "string \<Rightarrow> js_error" where
  "bigintRangeError n =
    newError (''The number '' @ n
      @ '' cannot be converted to a BigInt because it is not an integer'')"

text \<open>
  The JSON document of a response. Of the success document the fields
  \<^verbatim>\<open>commission_rate\<close>, \<^verbatim>\<open>total_usd\<close>, \<^verbatim>\<open>merchant_usd\<close>, \<^verbatim>\<open>commission_usd\<close>
  (doubles) and \<^verbatim>\<open>timestamp\<close> (the clock) are left out.
\<close>

datatype json = JString string | JNumber int | JBool bool | JArray "string list"

record response =
  statusCode :: nat
  body :: "(string \<times> json) list"

text \<open>A transaction receipt; \<^verbatim>\<open>status\<close> is 1, 0 or null.\<close>

record receipt =
  blockNumber :: int
  status :: "int option"
  gasUsed :: int

text \<open>
  The chain client. \<open>connect\<close> stands for the three constructors of step 6 and 7
  (provider, wallet, contract) and may throw; \<open>transfer\<close> is
  \<^verbatim>\<open>contract.transfer(to, amount)\<close> and yields the hash of the pending transaction;
  \<open>wait\<close> is \<^verbatim>\<open>tx.wait(confirmations, timeout)\<close> and yields a receipt or null. Each
  may throw, and each may change the client's state.
\<close>

record 'st chain_client =
  connect :: "js_string \<Rightarrow> string lookup \<Rightarrow> string lookup \<Rightarrow> js_error + 'st"
  walletAddress :: "'st \<Rightarrow> string"
  transfer :: "'st \<Rightarrow> string \<Rightarrow> string \<Rightarrow> (js_error + string) \<times> 'st"
  wait :: "'st \<Rightarrow> string \<Rightarrow> nat \<Rightarrow> nat \<Rightarrow> (js_error + receipt option) \<times> 'st"

text \<open>
  The identity service behind \<^verbatim>\<open>fetch(url, {headers: {'x-api-key': key}})\<close>: the
  call rejects, or yields a response with its \<^verbatim>\<open>ok\<close> flag and a body that
  \<^verbatim>\<open>response.json()\<close> fails on, reads as null, or reads as another value.
\<close>

datatype json_body = BodyUnparseable | BodyNull | BodyValue

datatype fetch_result = FetchRejected js_error | FetchResponse bool json_body

type_synonym identity_service = "string \<Rightarrow> string \<Rightarrow> fetch_result"

text \<open>The external calls of one request, in the order made, with what they returned.\<close>

datatype leg = Commission | Merchant

datatype event =
    Fetch string string
  | Connect "string lookup" "string lookup"
  | Transfer leg string string "js_error + string"
  | Wait leg string nat nat "js_error + receipt option"

subsection \<open>verifyOwnerApiKey (lines 83 to 114)\<close>

text \<open>
  Called with the header's value, a non-empty string. The result is the boolean and
  the calls made. Every exception inside is caught there and gives false: a rejected
  fetch, a body that does not parse, and the log line reading \<^verbatim>\<open>user.email\<close> of null.
\<close>

definition verifyOwnerApiKey ::
  "config \<Rightarrow> identity_service \<Rightarrow> string \<Rightarrow> bool \<times> event list" where
  "verifyOwnerApiKey cfg ids apiKey =
    (if \<not> truthy (OWNER_API_KEY cfg) then (True, [])
     else if Some apiKey \<noteq> OWNER_API_KEY cfg then (False, [])
     else
       let url = AGENTPAY_API_URL cfg @ ''/v1/users/me'' in
       (case ids url apiKey of
          FetchRejected e \<Rightarrow> False
        | FetchResponse ok b \<Rightarrow>
            if \<not> ok then False
            else (case b of BodyUnparseable \<Rightarrow> False | BodyNull \<Rightarrow> False | BodyValue \<Rightarrow> True),
        [Fetch url apiKey]))"

subsection \<open>The handler of POST /sign-payment (lines 168 to 344)\<close>

text \<open>The documents of the early returns.\<close>

definition missingApiKey :: response where
  "missingApiKey =
    \<lparr>statusCode = 401, body =
      [(''error'', JString ''Unauthorized''),
       (''message'', JString ''x-api-key header required (owner API key only)'')]\<rparr>"

definition notOwner :: response where
  "notOwner =
    \<lparr>statusCode = 403, body =
      [(''error'', JString ''Forbidden''),
       (''message'', JString (''This signing service only accepts requests from the owner. ''
          @ ''Your API key is not authorized.''))]\<rparr>"

definition missingFields :: response where
  "missingFields =
    \<lparr>statusCode = 400, body =
      [(''error'', JString ''Invalid request''),
       (''message'', JString ''Required fields: merchant_address, total_amount, token, chain'')]\<rparr>"

definition unsupportedChain :: "config \<Rightarrow> string \<Rightarrow> response" where
  "unsupportedChain cfg chain =
    \<lparr>statusCode = 400, body =
      [(''error'', JString (''Unsupported chain: '' @ chain)),
       (''supported'', JArray (objectKeys (RPCS cfg)))]\<rparr>"

definition unsupportedToken :: "string \<Rightarrow> response" where
  "unsupportedToken token =
    \<lparr>statusCode = 400, body =
      [(''error'', JString (''Unsupported token: '' @ token)),
       (''supported'', JArray (objectKeys TOKENS))]\<rparr>"

definition tokenNotOnChain :: "string \<Rightarrow> string \<Rightarrow> response" where
  "tokenNotOnChain token chain =
    \<lparr>statusCode = 400, body =
      [(''error'', JString (token @ '' not supported on '' @ chain))]\<rparr>"

definition commissionNotConfigured :: response where
  "commissionNotConfigured =
    \<lparr>statusCode = 500, body =
      [(''error'', JString ''Commission address not configured''),
       (''message'', JString ''Set COMMISSION_ADDRESS environment variable'')]\<rparr>"

text \<open>The catch block (lines 329 to 343).\<close>

definition catchBlock :: "js_error \<Rightarrow> response" where
  "catchBlock error =
    (if errorCode error = Some ''INSUFFICIENT_FUNDS'' then
       \<lparr>statusCode = 400, body =
         [(''error'', JString ''Insufficient funds''),
          (''message'', JString ''Gateway wallet does not have enough tokens or ETH for gas'')]\<rparr>
     else
       \<lparr>statusCode = 500, body =
         [(''error'', JString ''Payment failed''),
          (''message'', JString (errorMessage error))]\<rparr>)"

text \<open>
  Steps 8 and 9: the commission transfer and its confirmation, then the merchant
  transfer and its confirmation. The result is the thrown error, or both hashes with
  their receipts.
\<close>

definition paymentLegs ::
  "'st chain_client \<Rightarrow> 'st \<Rightarrow> string \<Rightarrow> string \<Rightarrow> string \<Rightarrow> string
    \<Rightarrow> (js_error + string \<times> receipt \<times> string \<times> receipt) \<times> event list" where
  "paymentLegs cc s0 commissionAddress commissionAmount merchantAddress merchantAmount =
    (case transfer cc s0 commissionAddress commissionAmount of (sent1, s1) \<Rightarrow>
     let t1 = [Transfer Commission commissionAddress commissionAmount sent1] in
     case sent1 of
       Inl error \<Rightarrow> (Inl error, t1)
     | Inr tx1 \<Rightarrow>
     (case wait cc s1 tx1 1 60000 of (waited1, s2) \<Rightarrow>
      let t2 = t1 @ [Wait Commission tx1 1 60000 waited1] in
      case waited1 of
        Inl error \<Rightarrow> (Inl error, t2)
      | Inr None \<Rightarrow> (Inl (readOfNull ''blockNumber''), t2)
      | Inr (Some receipt1) \<Rightarrow>
      if status receipt1 \<noteq> Some 1
      then (Inl (newError ''Commission transaction failed on-chain''), t2)
      else
      (case transfer cc s2 merchantAddress merchantAmount of (sent2, s3) \<Rightarrow>
       let t3 = t2 @ [Transfer Merchant merchantAddress merchantAmount sent2] in
       case sent2 of
         Inl error \<Rightarrow> (Inl error, t3)
       | Inr tx2 \<Rightarrow>
       (case wait cc s3 tx2 1 60000 of (waited2, s4) \<Rightarrow>
        let t4 = t3 @ [Wait Merchant tx2 1 60000 waited2] in
        case waited2 of
          Inl error \<Rightarrow> (Inl error, t4)
        | Inr None \<Rightarrow> (Inl (readOfNull ''blockNumber''), t4)
        | Inr (Some receipt2) \<Rightarrow>
        if status receipt2 \<noteq> Some 1
        then (Inl (newError ''Merchant transaction failed on-chain''), t4)
        else (Inr (tx1, receipt1, tx2, receipt2), t4)))))"

text \<open>Step 10: the success document (status 200).\<close>

definition successResponse ::
  "string \<Rightarrow> string \<Rightarrow> string \<Rightarrow> string \<Rightarrow> string \<Rightarrow> string \<Rightarrow> string \<Rightarrow> string
    \<Rightarrow> string \<times> receipt \<times> string \<times> receipt \<Rightarrow> response" where
  "successResponse walletAddr commissionAddress merchant_address total_amount token chain
      commissionAmount merchantAmount confirmed =
    (case confirmed of (tx1, receipt1, tx2, receipt2) \<Rightarrow>
     \<lparr>statusCode = 200, body =
       [(''success'', JBool True),
        (''txHash'', JString tx2),
        (''tx_hash'', JString tx2),
        (''blockNumber'', JNumber (blockNumber receipt2)),
        (''explorerUrl'', JString (propToString (getProp EXPLORERS chain) @ ''/tx/'' @ tx2)),
        (''txHashCommission'', JString tx1),
        (''tx_hash_commission'', JString tx1),
        (''blockNumberCommission'', JNumber (blockNumber receipt1)),
        (''explorerUrlCommission'',
           JString (propToString (getProp EXPLORERS chain) @ ''/tx/'' @ tx1)),
        (''from'', JString walletAddr),
        (''merchant'', JString merchant_address),
        (''commission_address'', JString commissionAddress),
        (''total_amount'', JString total_amount),
        (''merchant_amount'', JString merchantAmount),
        (''commission_amount'', JString commissionAmount),
        (''token'', JString token),
        (''chain'', JString chain),
        (''gasUsed'', JString (bigintToString (gasUsed receipt1 + gasUsed receipt2)))]\<rparr>)"

text \<open>
  \<^verbatim>\<open>BigInt(Math.floor(COMMISSION_RATE * 10000))\<close> throws a RangeError unless the
  double product is finite: the rate is NaN or infinite, or the product overflows.
  Otherwise its value is \<open>commissionBasisPoints rate\<close>, and the rate is handed on.
\<close>

definition rateBasisPoints :: "number \<Rightarrow> js_error + rat" where
  "rateBasisPoints r =
    (case r of
       Finite rate \<Rightarrow>
         (case toDouble (rate * 10000) of
            Finite product \<Rightarrow> Inr rate
          | NaN \<Rightarrow> Inl (bigintRangeError ''NaN'')
          | PosInfinity \<Rightarrow> Inl (bigintRangeError ''Infinity'')
          | NegInfinity \<Rightarrow> Inl (bigintRangeError ''-Infinity''))
     | NaN \<Rightarrow> Inl (bigintRangeError ''NaN'')
     | PosInfinity \<Rightarrow> Inl (bigintRangeError ''Infinity'')
     | NegInfinity \<Rightarrow> Inl (bigintRangeError ''-Infinity''))"

text \<open>
  Steps 3 to 10, for the four fields once they are known to be non-empty strings:
  the chain and token checks, the commission address, the split, the connection,
  the two legs and the success document.
\<close>

definition processPayment ::
  "config \<Rightarrow> 'st chain_client \<Rightarrow> string \<Rightarrow> string \<Rightarrow> string \<Rightarrow> string
    \<Rightarrow> (js_error + response) \<times> event list" where
  "processPayment cfg cc merchant_address total_amount token chain =
    (if \<not> truthyProp (getProp (RPCS cfg) chain) then (Inr (unsupportedChain cfg chain), [])
     else
     case getProp TOKENS token of
       Absent \<Rightarrow> (Inr (unsupportedToken token), [])
     | Inherited member \<Rightarrow> (Inl (readOfUndefined chain), [])
     | Own tokenConfig \<Rightarrow>
     let tokenAddress = getProp (contracts tokenConfig) chain in
     if \<not> truthyProp tokenAddress then (Inr (tokenNotOnChain token chain), [])
     else
     case COMMISSION_ADDRESS cfg of
       None \<Rightarrow> (Inr commissionNotConfigured, [])
     | Some commissionAddress \<Rightarrow>
     if commissionAddress = [] then (Inr commissionNotConfigured, [])
     else
     case StringToBigInt total_amount of
       None \<Rightarrow> (Inl (bigintSyntaxError total_amount), [])
     | Some totalAmountBN \<Rightarrow>
     case rateBasisPoints (COMMISSION_RATE cfg) of
       Inl error \<Rightarrow> (Inl error, [])
     | Inr rate \<Rightarrow>
     let commissionAmount = bigintToString (commissionAmountBN rate totalAmountBN);
         merchantAmount = bigintToString (merchantAmountBN rate totalAmountBN);
         t0 = [Connect (getProp (RPCS cfg) chain) tokenAddress]
     in
     case connect cc (GATEWAY_PRIVATE_KEY cfg) (getProp (RPCS cfg) chain) tokenAddress of
       Inl error \<Rightarrow> (Inl error, t0)
     | Inr s0 \<Rightarrow>
     (case paymentLegs cc s0 commissionAddress commissionAmount merchant_address merchantAmount of
        (Inl error, t) \<Rightarrow> (Inl error, t0 @ t)
      | (Inr confirmed, t) \<Rightarrow>
          (Inr (successResponse (walletAddress cc s0) commissionAddress merchant_address
                  total_amount token chain commissionAmount merchantAmount confirmed),
           t0 @ t)))"

text \<open>
  The request: the \<^verbatim>\<open>x-api-key\<close> header and the four fields destructured from
  the body.
\<close>

record request =
  x_api_key :: js_string
  merchant_address :: js_string
  total_amount :: js_string
  token :: js_string
  chain :: js_string

text \<open>Step 2: all four fields are required.\<close>

definition signPaymentBody ::
  "config \<Rightarrow> 'st chain_client \<Rightarrow> request \<Rightarrow> (js_error + response) \<times> event list" where
  "signPaymentBody cfg cc req =
    (case (merchant_address req, total_amount req, token req, chain req) of
       (Some merchant, Some amount, Some tok, Some ch) \<Rightarrow>
         if merchant = [] \<or> amount = [] \<or> tok = [] \<or> ch = [] then (Inr missingFields, [])
         else processPayment cfg cc merchant amount tok ch
     | _ \<Rightarrow> (Inr missingFields, []))"

text \<open>
  The handler: step 1 (the header, then the owner check), the rest of the try block,
  and the catch block for whatever was thrown.
\<close>

definition signPayment ::
  "config \<Rightarrow> identity_service \<Rightarrow> 'st chain_client \<Rightarrow> request \<Rightarrow> response \<times> event list" where
  "signPayment cfg ids cc req =
    (case x_api_key req of
       None \<Rightarrow> (missingApiKey, [])
     | Some apiKey \<Rightarrow>
       if apiKey = [] then (missingApiKey, [])
       else
       case verifyOwnerApiKey cfg ids apiKey of (isOwner, t0) \<Rightarrow>
       if \<not> isOwner then (notOwner, t0)
       else
       (case signPaymentBody cfg cc req of
          (Inr response, t) \<Rightarrow> (response, t0 @ t)
        | (Inl error, t) \<Rightarrow> (catchBlock error, t0 @ t)))"

subsection \<open>Reading a trace\<close>

fun isTransfer :: "event \<Rightarrow> bool" where
  "isTransfer (Transfer l recipient amount sent) = True"
| "isTransfer e = False"

text \<open>
  The error a failed merchant call leaves the try block with: what the call threw,
  the TypeError of a null receipt, or the handler's own error for a receipt whose
  status is not 1. \<open>None\<close> for every other event.
\<close>

fun merchantFailure :: "event \<Rightarrow> js_error option" where
  "merchantFailure (Transfer Merchant recipient amount (Inl error)) = Some error"
| "merchantFailure (Wait Merchant tx confirmations timeout (Inl error)) = Some error"
| "merchantFailure (Wait Merchant tx confirmations timeout (Inr None)) =
     Some (readOfNull ''blockNumber'')"
| "merchantFailure (Wait Merchant tx confirmations timeout (Inr (Some r))) =
     (if status r \<noteq> Some 1 then Some (newError ''Merchant transaction failed on-chain'')
      else None)"
| "merchantFailure e = None"

text \<open>Whether a string occurs in a response: inside one of its string values.\<close>

definition mentions :: "response \<Rightarrow> string \<Rightarrow> bool" where
  "mentions r s =
    list_ex (\<lambda>(k, v). case v of
                 JString x \<Rightarrow> sublist s x
               | JArray xs \<Rightarrow> list_ex (sublist s) xs
               | JNumber n \<Rightarrow> False
               | JBool b \<Rightarrow> False) (body r)"

subsection \<open>Concrete inputs\<close>

text \<open>
  The double nearest to 0.005, which \<^verbatim>\<open>parseFloat('0.005')\<close> yields: 5764607523034235
  divided by 2 to the power 60.
\<close>

definition defaultRate :: rat where
  "defaultRate = 5764607523034235 / 1152921504606846976"

text \<open>
  A configuration with the default rate, a request for 15 USDC on
  base, an identity service that accepts the key, and a chain client whose state
  counts the calls made: it hands out the hashes \<open>0xc1\<close> and \<open>0xm2\<close> and answers
  the two confirmation waits as scripted.
\<close>

definition demoConfig :: config where
  "demoConfig =
    \<lparr>GATEWAY_PRIVATE_KEY = Some ''0xgatewaykey'', env_AGENTPAY_API_URL = None,
     OWNER_API_KEY = Some ''owner-key'', COMMISSION_RATE = Finite defaultRate,
     COMMISSION_ADDRESS = Some ''0xC0'', BASE_RPC = None, ETHEREUM_RPC = None,
     POLYGON_RPC = None, ARBITRUM_RPC = None\<rparr>"

definition demoRequest :: request where
  "demoRequest =
    \<lparr>x_api_key = Some ''owner-key'', merchant_address = Some ''0xM1'',
     total_amount = Some ''15000000'', token = Some ''USDC'', chain = Some ''base''\<rparr>"

definition demoIdentity :: identity_service where
  "demoIdentity url k = FetchResponse True BodyValue"

definition demoClient ::
  "(js_error + receipt option) \<Rightarrow> (js_error + receipt option) \<Rightarrow> nat chain_client" where
  "demoClient waited1 waited2 =
    \<lparr>connect = (\<lambda>k rpc tokenAddress. Inr 0),
     walletAddress = (\<lambda>s. ''0xWA''),
     transfer = (\<lambda>s recipient amount. (Inr (if s = 0 then ''0xc1'' else ''0xm2''), Suc s)),
     wait = (\<lambda>s tx confirmations timeout.
               (if tx = ''0xc1'' then waited1 else waited2, Suc s))\<rparr>"

definition confirmedReceipt :: "int \<Rightarrow> receipt" where
  "confirmedReceipt n = \<lparr>blockNumber = n, status = Some 1, gasUsed = 50000\<rparr>"

definition revertedReceipt :: "int \<Rightarrow> receipt" where
  "revertedReceipt n = \<lparr>blockNumber = n, status = Some 0, gasUsed = 30000\<rparr>"

definition timeoutError :: js_error where
  "timeoutError = JsError (Some ''TIMEOUT'') ''wait for transaction timeout''"

text \<open>One request against the scripted client.\<close>

definition demoRun ::
  "(js_error + receipt option) \<Rightarrow> (js_error + receipt option) \<Rightarrow> request
    \<Rightarrow> response \<times> event list" where
  "demoRun waited1 waited2 req =
    signPayment demoConfig demoIdentity (demoClient waited1 waited2) req"

text \<open>The two calls every accepted demo request starts with.\<close>

definition demoPrelude :: "event list" where
  "demoPrelude =
    [Fetch ''https://api.agentgatepay.com/v1/users/me'' ''owner-key'',
     Connect (Own ''https://mainnet.base.org'')
       (Own ''0x833589fCD6eDb6E08f4c7C32D4f71b54bdA02913'')]"



section \<open>Properties\<close>

subsection \<open>Double rounding\<close>

text \<open>
  \<open>binade\<close> is the binary exponent: \<open>2 powi (binade a) \<le> a < 2 powi (binade a + 1)\<close>
  for every positive \<open>a\<close> (\<open>binade_bounds\<close>).
\<close>

lemma bitLength_nonneg: "0 \<le> bitLength n"
proof (induction n rule: bitLength.induct)
  case (1 n)
  then show ?case by (cases "n \<le> 0") (simp_all add: bitLength.simps [of n])
qed

lemma bitLength_pos: "0 < n \<Longrightarrow> 0 < bitLength n"
  using bitLength_nonneg [of "n div 2"] by (simp add: bitLength.simps [of n])

lemma bitLength_bounds_int:
  "0 < n \<Longrightarrow> 2 ^ nat (bitLength n - 1) \<le> n \<and> n < 2 ^ nat (bitLength n)"
proof (induction n rule: bitLength.induct)
  case (1 n)
  have n: "\<not> n \<le> 0" using 1(2) by simp
  have bl: "bitLength n = 1 + bitLength (n div 2)" using n by (simp add: bitLength.simps [of n])
  show ?case
  proof (cases "n = 1")
    case True
    have "bitLength 1 = 1" by (simp add: bitLength.simps [of 1] bitLength.simps [of 0])
    with True show ?thesis by simp
  next
    case False
    with 1(2) have h: "0 < n div 2" by simp
    define b where "b = bitLength (n div 2)"
    from 1(1) [OF n h] have lo: "2 ^ nat (b - 1) \<le> n div 2" and hi: "n div 2 < 2 ^ nat b"
      by (simp_all add: b_def)
    have p: "0 < b" unfolding b_def by (rule bitLength_pos [OF h])
    then have s: "nat b = Suc (nat (b - 1))" by simp
    have "(2::int) ^ nat b = 2 * 2 ^ nat (b - 1)" by (subst s) simp
    also have "\<dots> \<le> 2 * (n div 2)" using lo by simp
    also have "\<dots> \<le> n" by simp
    finally have A: "(2::int) ^ nat b \<le> n" .
    have "n < 2 * (n div 2 + 1)" by simp
    also have "\<dots> \<le> 2 * 2 ^ nat b" using hi by simp
    finally have B: "n < 2 * 2 ^ nat b" .
    have e1: "nat (bitLength n - 1) = nat b" by (simp add: bl b_def)
    have e2: "nat (bitLength n) = Suc (nat b)" using p by (simp add: bl b_def)
    show ?thesis using A B by (simp add: e1 e2)
  qed
qed

lemma powi_two_nat: "0 \<le> k \<Longrightarrow> (2::rat) powi k = of_int (2 ^ nat k)"
  by (simp add: power_int_def)

lemma powi_two_pos: "0 < (2::rat) powi k"
  by (simp add: power_int_def)

lemma powi_two_mono: "i \<le> j \<Longrightarrow> (2::rat) powi i \<le> 2 powi j"
  by (rule power_int_increasing) simp_all

lemma powi_two_less: "(2::rat) powi i < 2 powi j \<Longrightarrow> i < j"
  using powi_two_mono [of j i] by (cases "i < j") simp_all

lemma bitLength_bounds:
  assumes "0 < n"
  shows "2 powi (bitLength n - 1) \<le> (of_int n :: rat)" and "(of_int n :: rat) < 2 powi (bitLength n)"
proof -
  from bitLength_bounds_int [OF assms]
  have lo: "2 ^ nat (bitLength n - 1) \<le> n" and hi: "n < 2 ^ nat (bitLength n)" by simp_all
  have p: "0 \<le> bitLength n - 1" using bitLength_pos [OF assms] by simp
  have "(of_int (2 ^ nat (bitLength n - 1)) :: rat) \<le> of_int n" using lo by (simp only: of_int_le_iff)
  then show "2 powi (bitLength n - 1) \<le> (of_int n :: rat)" by (simp only: powi_two_nat [OF p])
  have "(of_int n :: rat) < of_int (2 ^ nat (bitLength n))" using hi by (simp only: of_int_less_iff)
  then show "(of_int n :: rat) < 2 powi (bitLength n)"
    by (simp only: powi_two_nat [OF bitLength_nonneg])
qed

lemma binade_bounds:
  assumes "0 < a"
  shows "2 powi (binade a) \<le> a" and "a < 2 powi (binade a + 1)"
proof -
  obtain p q where pq: "quotient_of a = (p, q)" by (cases "quotient_of a")
  have q: "0 < q" using quotient_of_denom_pos [OF pq] .
  have a: "a = of_int p / of_int q" using quotient_of_div [OF pq] .
  have p: "0 < p" using assms q a by (simp add: zero_less_divide_iff)
  define d where "d = bitLength p - bitLength q"
  have b: "binade a = (if 2 powi d \<le> a then d else d - 1)"
    by (simp add: binade_def pq d_def Let_def)
  note P = bitLength_bounds [OF p] and Q = bitLength_bounds [OF q]
  have qpos: "(0::rat) < of_int q" using q by simp
  have lo: "2 powi (d - 1) \<le> a"
  proof -
    have "2 powi (d - 1) * (of_int q :: rat) \<le> 2 powi (d - 1) * 2 powi (bitLength q)"
      using Q(2) powi_two_pos [of "d - 1"] by (simp add: less_imp_le)
    also have "\<dots> = 2 powi (bitLength p - 1)"
      by (simp add: d_def power_int_add [symmetric])
    also have "\<dots> \<le> of_int p" by (rule P(1))
    finally show ?thesis using qpos by (simp add: a pos_le_divide_eq)
  qed
  have hi: "a < 2 powi (d + 1)"
  proof -
    have "(of_int p :: rat) < 2 powi (bitLength p)" by (rule P(2))
    also have "\<dots> = 2 powi (d + 1) * 2 powi (bitLength q - 1)"
      by (simp add: d_def power_int_add [symmetric])
    also have "\<dots> \<le> 2 powi (d + 1) * of_int q"
      using Q(1) powi_two_pos [of "d + 1"] by simp
    finally show ?thesis using qpos by (simp add: a pos_divide_less_eq)
  qed
  show "2 powi (binade a) \<le> a" using lo by (simp add: b)
  show "a < 2 powi (binade a + 1)"
  proof (cases "2 powi d \<le> a")
    case True
    then show ?thesis using hi by (simp add: b)
  next
    case False
    then show ?thesis by (simp add: b)
  qed
qed

lemma roundHalfEven_nonneg: "0 \<le> m \<Longrightarrow> 0 \<le> roundHalfEven m"
  by (auto simp: roundHalfEven_def Let_def)

lemma roundHalfEven_le:
  assumes "m \<le> of_int N"
  shows "roundHalfEven m \<le> N"
proof (cases "\<lfloor>m\<rfloor> = N")
  case True
  have "of_int \<lfloor>m\<rfloor> \<le> m" by simp
  with True assms have "m = of_int N" by simp
  then show ?thesis by (simp add: roundHalfEven_def)
next
  case False
  have "\<lfloor>m\<rfloor> \<le> N" using assms by (simp add: floor_le_iff)
  with False have "\<lfloor>m\<rfloor> + 1 \<le> N" by simp
  then show ?thesis by (auto simp: roundHalfEven_def Let_def)
qed

lemma roundHalfEven_of_int: "roundHalfEven (of_int n) = n"
  by (simp add: roundHalfEven_def)

lemma roundDouble_pos:
  "0 < x \<Longrightarrow> roundDouble x =
     of_int (roundHalfEven (x / 2 powi (max (binade x) (- 1022) - 52)))
     * 2 powi (max (binade x) (- 1022) - 52)"
  by (simp add: roundDouble_def Let_def)

lemma roundDouble_nonneg:
  assumes "0 \<le> x"
  shows "0 \<le> roundDouble x"
proof (cases "x = 0")
  case True
  then show ?thesis by (simp add: roundDouble_def)
next
  case False
  with assms have x: "0 < x" by simp
  define q :: rat where "q = 2 powi (max (binade x) (- 1022) - 52)"
  have q: "0 < q" unfolding q_def by (rule powi_two_pos)
  have "0 \<le> x / q" using x q by simp
  then have "0 \<le> roundHalfEven (x / q)" by (rule roundHalfEven_nonneg)
  then have "0 \<le> of_int (roundHalfEven (x / q)) * q" using q by simp
  then show ?thesis unfolding roundDouble_pos [OF x] q_def .
qed

lemma roundDouble_le_int:
  assumes "0 \<le> x" and "x \<le> of_int N" and "N < 2 ^ 53"
  shows "roundDouble x \<le> of_int N"
proof (cases "x = 0")
  case True
  with assms(2) show ?thesis by (simp add: roundDouble_def)
next
  case False
  with assms(1) have x: "0 < x" by simp
  define k where "k = max (binade x) (- 1022) - 52"
  define q :: rat where "q = 2 powi k"
  have q: "0 < q" unfolding q_def by (rule powi_two_pos)
  have "2 powi (binade x) \<le> x" by (rule binade_bounds(1) [OF x])
  also have "x \<le> of_int N" by (rule assms(2))
  also have "(of_int N :: rat) < of_int (2 ^ 53)" using assms(3) by (simp only: of_int_less_iff)
  also have "(of_int (2 ^ 53) :: rat) = 2 powi 53" by simp
  finally have "binade x < 53" by (rule powi_two_less)
  then have k: "k \<le> 0" by (simp add: k_def)
  define M :: int where "M = 2 ^ nat (- k)"
  have qM: "q * of_int M = 1"
  proof -
    have "q * of_int M = 2 powi k * 2 powi (- k)"
      using k by (simp add: q_def M_def powi_two_nat)
    also have "\<dots> = 1" by (simp add: power_int_add [symmetric])
    finally show ?thesis .
  qed
  then have inv: "1 / q = of_int M" using q by (simp add: field_simps)
  have "x / q \<le> of_int N / q" using assms(2) q by (simp add: divide_right_mono)
  also have "of_int N / q = of_int N * (1 / q)" by simp
  also have "\<dots> = of_int N * of_int M" by (simp only: inv)
  also have "\<dots> = of_int (N * M)" by simp
  finally have "roundHalfEven (x / q) \<le> N * M" by (rule roundHalfEven_le)
  then have "(of_int (roundHalfEven (x / q)) :: rat) \<le> of_int (N * M)" by (simp only: of_int_le_iff)
  then have "of_int (roundHalfEven (x / q)) * q \<le> of_int (N * M) * q"
    using q by (simp only: mult_le_cancel_right_pos)
  also have "of_int (N * M) * q = of_int N" using qM by (simp add: mult.assoc mult.commute)
  finally show ?thesis
    unfolding roundDouble_pos [OF x] q_def k_def .
qed

lemma roundDouble_of_int:
  assumes "0 \<le> N" and "N < 2 ^ 53"
  shows "roundDouble (of_int N) = of_int N"
proof (cases "N = 0")
  case True
  then show ?thesis by (simp add: roundDouble_def)
next
  case False
  with assms(1) have x: "(0::rat) < of_int N" by simp
  define k where "k = max (binade (of_int N)) (- 1022) - 52"
  define q :: rat where "q = 2 powi k"
  have q: "0 < q" unfolding q_def by (rule powi_two_pos)
  have "2 powi (binade (of_int N)) \<le> (of_int N :: rat)" by (rule binade_bounds(1) [OF x])
  also have "(of_int N :: rat) < of_int (2 ^ 53)" using assms(2) by (simp only: of_int_less_iff)
  also have "(of_int (2 ^ 53) :: rat) = 2 powi 53" by simp
  finally have "binade (of_int N) < 53" by (rule powi_two_less)
  then have k: "k \<le> 0" by (simp add: k_def)
  define M :: int where "M = 2 ^ nat (- k)"
  have qM: "q * of_int M = 1"
  proof -
    have "q * of_int M = 2 powi k * 2 powi (- k)"
      using k by (simp add: q_def M_def powi_two_nat)
    also have "\<dots> = 1" by (simp add: power_int_add [symmetric])
    finally show ?thesis .
  qed
  then have inv: "1 / q = of_int M" using q by (simp add: field_simps)
  have "of_int N / q = of_int N * (1 / q)" by simp
  also have "\<dots> = of_int N * of_int M" by (simp only: inv)
  also have "\<dots> = of_int (N * M)" by simp
  finally have "roundHalfEven (of_int N / q) = N * M" by (simp only: roundHalfEven_of_int)
  then have "of_int (roundHalfEven (of_int N / q)) * q = of_int (N * M) * q" by simp
  also have "\<dots> = of_int N" using qM by (simp add: mult.assoc mult.commute)
  finally show ?thesis
    unfolding roundDouble_pos [OF x] q_def k_def .
qed

text \<open>
  The rounded value is a multiple of the spacing (by its definition) and lies within
  half a spacing of the exact one.
\<close>

lemma roundHalfEven_near: "\<bar>of_int (roundHalfEven m) - m\<bar> \<le> 1 / 2"
proof -
  define r where "r = m - of_int \<lfloor>m\<rfloor>"
  have r: "0 \<le> r" "r < 1" unfolding r_def by linarith+
  have m: "m = of_int \<lfloor>m\<rfloor> + r" unfolding r_def by simp
  consider "r < 1 / 2" | "1 / 2 < r" | "r = 1 / 2" by linarith
  then show ?thesis
  proof cases
    case 1
    then have "roundHalfEven m = \<lfloor>m\<rfloor>" by (simp add: roundHalfEven_def r_def)
    then have "of_int (roundHalfEven m) - m = - r" by (simp add: r_def)
    then show ?thesis using r 1 by simp
  next
    case 2
    then have "roundHalfEven m = \<lfloor>m\<rfloor> + 1" by (simp add: roundHalfEven_def r_def)
    then have "of_int (roundHalfEven m) - m = 1 - r" by (simp add: r_def)
    then show ?thesis using r 2 by simp
  next
    case 3
    then have "roundHalfEven m = \<lfloor>m\<rfloor> \<or> roundHalfEven m = \<lfloor>m\<rfloor> + 1"
      by (simp add: roundHalfEven_def r_def Let_def)
    then have "of_int (roundHalfEven m) - m = - r \<or> of_int (roundHalfEven m) - m = 1 - r"
      by (auto simp: r_def)
    then show ?thesis using 3 by auto
  qed
qed

lemma roundDouble_near:
  assumes "0 < x"
  shows "\<bar>roundDouble x - x\<bar> \<le> 2 powi (max (binade x) (- 1022) - 52) / 2"
proof -
  define q :: rat where "q = 2 powi (max (binade x) (- 1022) - 52)"
  have q: "0 < q" unfolding q_def by (rule powi_two_pos)
  have "\<bar>of_int (roundHalfEven (x / q)) - x / q\<bar> * q \<le> 1 / 2 * q"
    using roundHalfEven_near [of "x / q"] q by (simp only: mult_le_cancel_right_pos)
  moreover have "\<bar>of_int (roundHalfEven (x / q)) - x / q\<bar> * q
                 = \<bar>of_int (roundHalfEven (x / q)) * q - x\<bar>"
  proof -
    have "\<bar>of_int (roundHalfEven (x / q)) - x / q\<bar> * q
          = \<bar>(of_int (roundHalfEven (x / q)) - x / q) * q\<bar>"
      using q by (simp add: abs_mult)
    also have "(of_int (roundHalfEven (x / q)) - x / q) * q
               = of_int (roundHalfEven (x / q)) * q - x"
      using q by (simp add: field_simps)
    finally show ?thesis .
  qed
  ultimately show ?thesis
    unfolding roundDouble_pos [OF assms] q_def by simp
qed

text \<open>
  The doubles of three decimal rates, and the basis points the handler derives from
  them. The default 0.005 gives 50. The rate 0.0003 gives 2, not 3: the double lies
  below 3/10000 and the product is rounded to 2.9999999999999996. The rate 0.0007
  gives 7 although the double lies below 7/10000 and the exact product starts with
  6.99: the product is rounded up to 7.
\<close>

lemma double_examples:
  "toDouble (1 / 200) = Finite defaultRate"
  "commissionBasisPoints defaultRate = 50"
  "toDouble (3 / 10000) = Finite (5534023222112865 / 18446744073709551616)"
  "commissionBasisPoints (5534023222112865 / 18446744073709551616) = 2"
  "toDouble (7 / 10000) = Finite (6456360425798343 / 9223372036854775808)"
  "commissionBasisPoints (6456360425798343 / 9223372036854775808) = 7"
  "\<lfloor>(6456360425798343 / 9223372036854775808 :: rat) * 10000\<rfloor> = 6"
  by code_simp+

subsection \<open>Arithmetic of the split\<close>

lemma commissionBasisPoints_range:
  assumes "0 \<le> rate" and "rate \<le> 1"
  shows "0 \<le> commissionBasisPoints rate \<and> commissionBasisPoints rate \<le> 10000"
proof -
  have lo: "0 \<le> rate * 10000" using assms by simp
  have "rate * 10000 \<le> 10000" using assms by simp
  then have hi: "rate * 10000 \<le> of_int 10000" by simp
  have "0 \<le> roundDouble (rate * 10000)" by (rule roundDouble_nonneg [OF lo])
  moreover have "roundDouble (rate * 10000) \<le> of_int 10000"
    by (rule roundDouble_le_int [OF lo hi]) simp
  ultimately show ?thesis
    unfolding commissionBasisPoints_def by (simp add: floor_le_iff le_floor_iff)
qed


text \<open>
  A rate that is exactly a whole number of basis points loses nothing: the product
  is an integer below 2 to the power 53, so it is a double.
\<close>

lemma commissionBasisPoints_exact:
  assumes "rate * 10000 = of_int n" and "0 \<le> n" and "n < 2 ^ 53"
  shows "commissionBasisPoints rate = n"
  unfolding commissionBasisPoints_def assms(1) roundDouble_of_int [OF assms(2,3)] by simp

text \<open>For a rate between 0 and 1 the product is finite, and no RangeError is thrown.\<close>

lemma rateBasisPoints_unit:
  assumes "0 \<le> rate" and "rate \<le> 1"
  shows "rateBasisPoints (Finite rate) = Inr rate"
proof -
  have lo: "0 \<le> rate * 10000" using assms by simp
  have "rate * 10000 \<le> 10000" using assms by simp
  then have hi: "rate * 10000 \<le> of_int 10000" by simp
  have a: "0 \<le> roundDouble (rate * 10000)" by (rule roundDouble_nonneg [OF lo])
  have "roundDouble (rate * 10000) \<le> of_int 10000"
    by (rule roundDouble_le_int [OF lo hi]) simp
  then have b: "roundDouble (rate * 10000) \<le> 10000" by simp
  have "toDouble (rate * 10000) = Finite (roundDouble (rate * 10000))"
    using a b by (simp add: toDouble_def Let_def)
  then show ?thesis by (simp add: rateBasisPoints_def)
qed

lemma bigintDiv_nonneg: "0 \<le> a \<Longrightarrow> 0 < b \<Longrightarrow> bigintDiv a b = a div b"
  by (cases "a = 0") (simp_all add: bigintDiv_def)


text \<open>
  Claim C2. For every total amount (an unsigned integer of any size) and every
  configured rate, the split of the handler satisfies commission + merchant = total
  exactly, with both parts non-negative. The configured rate is the rate of the data
  model, between 0 and 1; the theorem also covers the two end points.
\<close>

theorem split_sums_to_total:
  assumes "0 \<le> totalAmountBN" and "0 \<le> rate" and "rate \<le> 1"
  shows "commissionAmountBN rate totalAmountBN + merchantAmountBN rate totalAmountBN
           = totalAmountBN
       \<and> 0 \<le> commissionAmountBN rate totalAmountBN
       \<and> 0 \<le> merchantAmountBN rate totalAmountBN"
proof -
  let ?b = "commissionBasisPoints rate"
  have b: "0 \<le> ?b" "?b \<le> 10000"
    using commissionBasisPoints_range [OF assms(2,3)] by simp_all
  have prod: "0 \<le> totalAmountBN * ?b" using assms(1) b(1) by simp
  have c: "commissionAmountBN rate totalAmountBN = (totalAmountBN * ?b) div 10000"
    unfolding commissionAmountBN_def using prod by (simp add: bigintDiv_nonneg)
  have "totalAmountBN * ?b \<le> totalAmountBN * 10000"
    using assms(1) b(2) by (rule mult_left_mono [rotated])
  then have "(totalAmountBN * ?b) div 10000 \<le> totalAmountBN"
    using zdiv_mono1 [of "totalAmountBN * ?b" "totalAmountBN * 10000" 10000] by simp
  moreover have "0 \<le> (totalAmountBN * ?b) div 10000"
    using prod by (simp add: pos_imp_zdiv_nonneg_iff)
  ultimately show ?thesis
    unfolding merchantAmountBN_def c by simp
qed

text \<open>
  The split at 2 to the power 64 atomic units and the default rate: the three
  hypotheses hold and the parts are the expected ones.
\<close>

theorem split_sums_to_total_witness:
  "(0::int) \<le> 18446744073709551616 \<and> 0 \<le> defaultRate \<and> defaultRate \<le> 1
   \<and> commissionAmountBN defaultRate 18446744073709551616
       + merchantAmountBN defaultRate 18446744073709551616 = 18446744073709551616
   \<and> 0 \<le> commissionAmountBN defaultRate 18446744073709551616
   \<and> 0 \<le> merchantAmountBN defaultRate 18446744073709551616
   \<and> commissionAmountBN defaultRate 18446744073709551616 = 92233720368547758"
proof -
  have h1: "(0::int) \<le> 18446744073709551616"
    and h2: "0 \<le> defaultRate" and h3: "defaultRate \<le> 1"
    by (simp_all add: defaultRate_def)
  have "commissionAmountBN defaultRate 18446744073709551616 = 92233720368547758"
    by code_simp
  then show ?thesis
    using split_sums_to_total [OF h1 h2 h3] h1 h2 h3 by blast
qed




subsection \<open>The calls a request makes\<close>

lemma legs_merchant_after:
  assumes "paymentLegs cc s0 ca camt ma mamt = (res, l)"
    and "l = pre @ Transfer Merchant recipient amt sent # post"
  shows "\<exists>tx1 r1. pre = [Transfer Commission ca camt (Inr tx1),
                           Wait Commission tx1 1 60000 (Inr (Some r1))]
                  \<and> status r1 = Some 1"
  using assms unfolding paymentLegs_def
  by (auto simp: Let_def Cons_eq_append_conv split: prod.splits sum.splits option.splits if_splits)

lemma legs_commission_failed:
  assumes "paymentLegs cc s0 ca camt ma mamt = (res, l)"
    and "Wait Commission tx c t (Inr (Some r1)) \<in> set l"
    and "status r1 \<noteq> Some 1"
  shows "\<exists>tx1. l = [Transfer Commission ca camt (Inr tx1),
                      Wait Commission tx1 1 60000 (Inr (Some r1))]"
  using assms unfolding paymentLegs_def
  by (auto simp: Let_def split: prod.splits sum.splits option.splits if_splits)

lemma legs_merchant_failure:
  assumes "paymentLegs cc s0 ca camt ma mamt = (res, l)"
    and "l \<noteq> []" and "merchantFailure (last l) = Some err"
  shows "res = Inl err"
  using assms unfolding paymentLegs_def
  by (auto simp: Let_def split: prod.splits sum.splits option.splits if_splits)

lemma legs_nonempty: "paymentLegs cc s0 ca camt ma mamt = (res, l) \<Longrightarrow> l \<noteq> []"
  unfolding paymentLegs_def
  by (auto simp: Let_def split: prod.splits sum.splits option.splits if_splits)

lemma processPayment_trace:
  assumes "processPayment cfg cc m a tk ch = (res, tr)"
  shows "tr = [] \<or> (\<exists>rpc addr. tr = [Connect rpc addr])
       \<or> (\<exists>rpc addr s0 ca camt mamt r l. tr = Connect rpc addr # l
             \<and> paymentLegs cc s0 ca camt m mamt = (r, l)
             \<and> (\<forall>e. r = Inl e \<longrightarrow> res = Inl e))"
  using assms unfolding processPayment_def
  apply (simp add: Let_def split: prod.splits sum.splits option.splits if_splits lookup.splits)
  apply blast+
  done

lemma signPaymentBody_trace:
  assumes "signPaymentBody cfg cc req = (res, tr)"
  shows "tr = [] \<or> (\<exists>rpc addr. tr = [Connect rpc addr])
       \<or> (\<exists>rpc addr s0 ca camt m mamt r l. tr = Connect rpc addr # l
             \<and> paymentLegs cc s0 ca camt m mamt = (r, l)
             \<and> (\<forall>e. r = Inl e \<longrightarrow> res = Inl e))"
proof (cases "\<exists>m a tk ch. tr \<noteq> [] \<and> processPayment cfg cc m a tk ch = (res, tr)")
  case True
  then obtain m a tk ch where "processPayment cfg cc m a tk ch = (res, tr)" by blast
  from processPayment_trace [OF this] show ?thesis by blast
next
  case False
  with assms have "tr = []"
    unfolding signPaymentBody_def
    by (auto split: prod.splits option.splits if_splits)
  then show ?thesis by simp
qed

lemma verifyOwnerApiKey_trace:
  "verifyOwnerApiKey cfg ids k = (b, t) \<Longrightarrow> t = [] \<or> (\<exists>url. t = [Fetch url k])"
  unfolding verifyOwnerApiKey_def by (auto simp: Let_def split: if_splits)

text \<open>
  Every run either makes no transfer and no wait at all, or its calls are a prefix
  without transfers and waits followed by the calls of \<open>paymentLegs\<close>, whose error
  is what the catch block answers.
\<close>

lemma signPayment_trace:
  assumes "signPayment cfg ids cc req = (resp, tr)"
  shows "(\<forall>e \<in> set tr. \<not> isTransfer e \<and> merchantFailure e = None
            \<and> (\<forall>tx c t w. e \<noteq> Wait Commission tx c t w))
       \<or> (\<exists>p s0 ca camt m mamt r l. tr = p @ l
             \<and> (\<forall>e \<in> set p. \<not> isTransfer e \<and> (\<forall>lg tx c t w. e \<noteq> Wait lg tx c t w))
             \<and> paymentLegs cc s0 ca camt m mamt = (r, l)
             \<and> (\<forall>e. r = Inl e \<longrightarrow> resp = catchBlock e))"
proof (cases "x_api_key req")
  case None
  with assms have "tr = []" by (simp add: signPayment_def)
  then show ?thesis by simp
next
  case (Some k)
  show ?thesis
  proof (cases "k = []")
    case True
    with Some assms have "tr = []" by (simp add: signPayment_def)
    then show ?thesis by simp
  next
    case False
    obtain b t0 where v: "verifyOwnerApiKey cfg ids k = (b, t0)"
      by (cases "verifyOwnerApiKey cfg ids k")
    from verifyOwnerApiKey_trace [OF v]
    have t0: "\<forall>e \<in> set t0. \<not> isTransfer e \<and> merchantFailure e = None
                \<and> (\<forall>lg tx c t w. e \<noteq> Wait lg tx c t w)"
      by auto
    show ?thesis
    proof (cases b)
      case False
      with Some \<open>k \<noteq> []\<close> v assms have "tr = t0" by (simp add: signPayment_def)
      then show ?thesis using t0 by simp
    next
      case True
      obtain res t where bd: "signPaymentBody cfg cc req = (res, t)"
        by (cases "signPaymentBody cfg cc req")
      from Some \<open>k \<noteq> []\<close> v True bd assms
      have tr: "tr = t0 @ t" and resp: "\<And>e. res = Inl e \<Longrightarrow> resp = catchBlock e"
        by (auto simp: signPayment_def split: sum.splits)
      from signPaymentBody_trace [OF bd]
      consider "t = []" | rpc addr where "t = [Connect rpc addr]"
        | rpc addr s0 ca camt m mamt r l where "t = Connect rpc addr # l"
            "paymentLegs cc s0 ca camt m mamt = (r, l)" "\<forall>e. r = Inl e \<longrightarrow> res = Inl e"
        by blast
      then show ?thesis
      proof cases
        case 1
        then show ?thesis using tr t0 by simp
      next
        case 2
        then show ?thesis using tr t0 by auto
      next
        case 3
        have "tr = (t0 @ [Connect rpc addr]) @ l" using tr 3(1) by simp
        moreover have "\<forall>e \<in> set (t0 @ [Connect rpc addr]).
            \<not> isTransfer e \<and> (\<forall>lg tx c t w. e \<noteq> Wait lg tx c t w)"
          using t0 by auto
        moreover have "\<forall>e. r = Inl e \<longrightarrow> resp = catchBlock e" using 3(3) resp by blast
        ultimately show ?thesis using 3(2) by blast
      qed
    qed
  qed
qed

subsection \<open>Runs of the concrete inputs\<close>

lemma parse_demo:
  "StringToBigInt ''15000000'' = Some 15000000"
  "StringToBigInt ''0'' = Some 0"
  "StringToBigInt ''abc'' = None"
  by code_simp+

lemma rate_demo: "rateBasisPoints (Finite defaultRate) = Inr defaultRate"
  by (rule rateBasisPoints_unit) (simp_all add: defaultRate_def)

lemma split_demo:
  "commissionAmountBN defaultRate 15000000 = 75000"
  "merchantAmountBN defaultRate 15000000 = 14925000"
  "commissionAmountBN defaultRate 0 = 0"
  "merchantAmountBN defaultRate 0 = 0"
  by code_simp+

lemma print_demo:
  "bigintToString 75000 = ''75000''"
  "bigintToString 14925000 = ''14925000''"
  "bigintToString 0 = ''0''"
  "bigintToString 100000 = ''100000''"
  by code_simp+

lemmas handler_defs = signPayment_def signPaymentBody_def processPayment_def paymentLegs_def
  verifyOwnerApiKey_def truthy_def truthyProp_def rate_demo successResponse_def
  catchBlock_def newError_def AGENTPAY_API_URL_def orDefault_def getProp_def TOKENS_def RPCS_def
  EXPLORERS_def propToString_def Let_def

lemmas demo_defs = demoRun_def demoConfig_def demoRequest_def demoIdentity_def demoClient_def
  confirmedReceipt_def revertedReceipt_def timeoutError_def demoPrelude_def

lemma run_success:
  "demoRun (Inr (Some (confirmedReceipt 100))) (Inr (Some (confirmedReceipt 101))) demoRequest
   = (\<lparr>statusCode = 200, body =
       [(''success'', JBool True),
        (''txHash'', JString ''0xm2''),
        (''tx_hash'', JString ''0xm2''),
        (''blockNumber'', JNumber 101),
        (''explorerUrl'', JString ''https://basescan.org/tx/0xm2''),
        (''txHashCommission'', JString ''0xc1''),
        (''tx_hash_commission'', JString ''0xc1''),
        (''blockNumberCommission'', JNumber 100),
        (''explorerUrlCommission'', JString ''https://basescan.org/tx/0xc1''),
        (''from'', JString ''0xWA''),
        (''merchant'', JString ''0xM1''),
        (''commission_address'', JString ''0xC0''),
        (''total_amount'', JString ''15000000''),
        (''merchant_amount'', JString ''14925000''),
        (''commission_amount'', JString ''75000''),
        (''token'', JString ''USDC''),
        (''chain'', JString ''base''),
        (''gasUsed'', JString ''100000'')]\<rparr>,
      demoPrelude @
      [Transfer Commission ''0xC0'' ''75000'' (Inr ''0xc1''),
       Wait Commission ''0xc1'' 1 60000 (Inr (Some (confirmedReceipt 100))),
       Transfer Merchant ''0xM1'' ''14925000'' (Inr ''0xm2''),
       Wait Merchant ''0xm2'' 1 60000 (Inr (Some (confirmedReceipt 101)))])"
  by (simp add: handler_defs parse_demo split_demo print_demo demo_defs)

lemma run_merchant_reverted:
  "demoRun (Inr (Some (confirmedReceipt 100))) (Inr (Some (revertedReceipt 101))) demoRequest
   = (\<lparr>statusCode = 500, body = [(''error'', JString ''Payment failed''),
         (''message'', JString ''Merchant transaction failed on-chain'')]\<rparr>,
      demoPrelude @
      [Transfer Commission ''0xC0'' ''75000'' (Inr ''0xc1''),
       Wait Commission ''0xc1'' 1 60000 (Inr (Some (confirmedReceipt 100))),
       Transfer Merchant ''0xM1'' ''14925000'' (Inr ''0xm2''),
       Wait Merchant ''0xm2'' 1 60000 (Inr (Some (revertedReceipt 101)))])"
  by (simp add: handler_defs parse_demo split_demo print_demo demo_defs)

lemma run_commission_reverted:
  "demoRun (Inr (Some (revertedReceipt 100))) (Inr (Some (confirmedReceipt 101))) demoRequest
   = (\<lparr>statusCode = 500, body = [(''error'', JString ''Payment failed''),
         (''message'', JString ''Commission transaction failed on-chain'')]\<rparr>,
      demoPrelude @
      [Transfer Commission ''0xC0'' ''75000'' (Inr ''0xc1''),
       Wait Commission ''0xc1'' 1 60000 (Inr (Some (revertedReceipt 100)))])"
  by (simp add: handler_defs parse_demo split_demo print_demo demo_defs)

lemma run_commission_timeout:
  "demoRun (Inl timeoutError) (Inr (Some (confirmedReceipt 101))) demoRequest
   = (\<lparr>statusCode = 500, body = [(''error'', JString ''Payment failed''),
         (''message'', JString ''wait for transaction timeout'')]\<rparr>,
      demoPrelude @
      [Transfer Commission ''0xC0'' ''75000'' (Inr ''0xc1''),
       Wait Commission ''0xc1'' 1 60000 (Inl timeoutError)])"
  by (simp add: handler_defs parse_demo split_demo print_demo demo_defs)

lemma run_zero_amount:
  "demoRun (Inr (Some (confirmedReceipt 100))) (Inr (Some (confirmedReceipt 101)))
     (demoRequest\<lparr>total_amount := Some ''0''\<rparr>)
   = (\<lparr>statusCode = 200, body =
       [(''success'', JBool True),
        (''txHash'', JString ''0xm2''),
        (''tx_hash'', JString ''0xm2''),
        (''blockNumber'', JNumber 101),
        (''explorerUrl'', JString ''https://basescan.org/tx/0xm2''),
        (''txHashCommission'', JString ''0xc1''),
        (''tx_hash_commission'', JString ''0xc1''),
        (''blockNumberCommission'', JNumber 100),
        (''explorerUrlCommission'', JString ''https://basescan.org/tx/0xc1''),
        (''from'', JString ''0xWA''),
        (''merchant'', JString ''0xM1''),
        (''commission_address'', JString ''0xC0''),
        (''total_amount'', JString ''0''),
        (''merchant_amount'', JString ''0''),
        (''commission_amount'', JString ''0''),
        (''token'', JString ''USDC''),
        (''chain'', JString ''base''),
        (''gasUsed'', JString ''100000'')]\<rparr>,
      demoPrelude @
      [Transfer Commission ''0xC0'' ''0'' (Inr ''0xc1''),
       Wait Commission ''0xc1'' 1 60000 (Inr (Some (confirmedReceipt 100))),
       Transfer Merchant ''0xM1'' ''0'' (Inr ''0xm2''),
       Wait Merchant ''0xm2'' 1 60000 (Inr (Some (confirmedReceipt 101)))])"
  by (simp add: handler_defs parse_demo split_demo print_demo demo_defs)

lemma run_unparsable_amount:
  "demoRun (Inr (Some (confirmedReceipt 100))) (Inr (Some (confirmedReceipt 101)))
     (demoRequest\<lparr>total_amount := Some ''abc''\<rparr>)
   = (\<lparr>statusCode = 500, body = [(''error'', JString ''Payment failed''),
         (''message'', JString ''Cannot convert abc to a BigInt'')]\<rparr>,
      [Fetch ''https://api.agentgatepay.com/v1/users/me'' ''owner-key''])"
  by (simp add: handler_defs parse_demo split_demo print_demo demo_defs bigintSyntaxError_def)

subsection \<open>Ordering of the two legs\<close>

text \<open>
  Claim C1. In every run of the handler, a transfer of the merchant leg is directly
  preceded by the commission transfer and by its confirmation wait returning a
  receipt with status 1, so the merchant leg is submitted only after the commission
  leg was submitted and confirmed successful. If the commission wait returns a
  receipt whose status is not 1, the run holds exactly one transfer call and no
  merchant transfer.
\<close>

theorem merchant_leg_after_confirmed_commission:
  assumes "signPayment cfg ids cc req = (resp, tr)"
  shows "(\<forall>pre recipient amount sent post.
            tr = pre @ Transfer Merchant recipient amount sent # post \<longrightarrow>
            (\<exists>p ca camt tx1 r1.
               pre = p @ [Transfer Commission ca camt (Inr tx1),
                          Wait Commission tx1 1 60000 (Inr (Some r1))]
               \<and> status r1 = Some 1))
       \<and> (\<forall>tx c t r1.
            Wait Commission tx c t (Inr (Some r1)) \<in> set tr \<and> status r1 \<noteq> Some 1 \<longrightarrow>
            length (filter isTransfer tr) = 1
            \<and> (\<forall>recipient amount sent. Transfer Merchant recipient amount sent \<notin> set tr))"
proof -
  have first: "\<forall>pre recipient amount sent post.
            tr = pre @ Transfer Merchant recipient amount sent # post \<longrightarrow>
            (\<exists>p ca camt tx1 r1.
               pre = p @ [Transfer Commission ca camt (Inr tx1),
                          Wait Commission tx1 1 60000 (Inr (Some r1))]
               \<and> status r1 = Some 1)"
  proof (intro allI impI)
  fix pre recipient amount sent post
  assume eq: "tr = pre @ Transfer Merchant recipient amount sent # post"
  let ?M = "Transfer Merchant recipient amount sent"
  from signPayment_trace [OF assms]
  consider (quiet) "\<forall>e \<in> set tr. \<not> isTransfer e"
    | (legs) p s0 ca camt m mamt r l where "tr = p @ l"
        "\<forall>e \<in> set p. \<not> isTransfer e" "paymentLegs cc s0 ca camt m mamt = (r, l)"
    by blast
  then show "\<exists>p ca camt tx1 r1.
               pre = p @ [Transfer Commission ca camt (Inr tx1),
                          Wait Commission tx1 1 60000 (Inr (Some r1))]
               \<and> status r1 = Some 1"
  proof cases
    case quiet
    moreover have "?M \<in> set tr" using eq by simp
    ultimately show ?thesis by force
  next
    case legs
    from legs(1) eq have "p @ l = pre @ ?M # post" by simp
    then obtain us where us: "(p = pre @ us \<and> us @ l = ?M # post)
                            \<or> (p @ us = pre \<and> l = us @ ?M # post)"
      by (auto simp: append_eq_append_conv2)
    show ?thesis
    proof (cases "p @ us = pre \<and> l = us @ ?M # post")
      case True
      from legs_merchant_after [OF legs(3)] True
      obtain tx1 r1 where "us = [Transfer Commission ca camt (Inr tx1),
                                 Wait Commission tx1 1 60000 (Inr (Some r1))]"
        and "status r1 = Some 1" by blast
      with True show ?thesis by blast
    next
      case False
      with us have a: "p = pre @ us" and b: "us @ l = ?M # post" by blast+
      show ?thesis
      proof (cases us)
        case Nil
        with b have "l = [] @ ?M # post" by simp
        from legs_merchant_after [OF legs(3) this] show ?thesis by simp
      next
        case (Cons u us')
        with b have "u = ?M" by simp
        with a Cons have "?M \<in> set p" by simp
        with legs(2) show ?thesis by force
      qed
    qed
  qed
  qed
  have second: "\<forall>tx c t r1.
            Wait Commission tx c t (Inr (Some r1)) \<in> set tr \<and> status r1 \<noteq> Some 1 \<longrightarrow>
            length (filter isTransfer tr) = 1
            \<and> (\<forall>recipient amount sent. Transfer Merchant recipient amount sent \<notin> set tr)"
  proof (intro allI impI)
  fix tx c t r1
  assume w: "Wait Commission tx c t (Inr (Some r1)) \<in> set tr \<and> status r1 \<noteq> Some 1"
  from signPayment_trace [OF assms]
  consider (quiet) "\<forall>e \<in> set tr. \<forall>tx c t w. e \<noteq> Wait Commission tx c t w"
    | (legs) p s0 ca camt m mamt r l where "tr = p @ l"
        "\<forall>e \<in> set p. \<not> isTransfer e \<and> (\<forall>lg tx c t w. e \<noteq> Wait lg tx c t w)"
        "paymentLegs cc s0 ca camt m mamt = (r, l)"
    by blast
  then show "length (filter isTransfer tr) = 1
             \<and> (\<forall>recipient amount sent. Transfer Merchant recipient amount sent \<notin> set tr)"
  proof cases
    case quiet
    with w show ?thesis by blast
  next
    case legs
    from w legs(1,2) have "Wait Commission tx c t (Inr (Some r1)) \<in> set l" by auto
    from legs_commission_failed [OF legs(3) this] w
    obtain tx1 where l: "l = [Transfer Commission ca camt (Inr tx1),
                              Wait Commission tx1 1 60000 (Inr (Some r1))]"
      by blast
    have p: "filter isTransfer p = []" using legs(2) by (simp add: filter_empty_conv)
    have "length (filter isTransfer tr) = 1" using legs(1) l p by simp
    moreover have "\<forall>recipient amount sent. Transfer Merchant recipient amount sent \<notin> set tr"
    proof (intro allI notI)
      fix recipient amount sent
      assume "Transfer Merchant recipient amount sent \<in> set tr"
      with legs(1) l have "Transfer Merchant recipient amount sent \<in> set p" by auto
      with legs(2) show False by force
    qed
    ultimately show ?thesis by blast
  qed
  qed
  from first second show ?thesis by (rule conjI)
qed

text \<open>
  Two runs of the concrete inputs. With both legs confirmed, the merchant transfer
  comes right after the commission transfer and its successful wait. With a reverted
  commission receipt, the trace holds one transfer.
\<close>

theorem merchant_leg_after_confirmed_commission_witness:
  "(\<exists>p ca camt tx1 r1.
      demoPrelude @ [Transfer Commission ''0xC0'' ''75000'' (Inr ''0xc1''),
                     Wait Commission ''0xc1'' 1 60000 (Inr (Some (confirmedReceipt 100)))]
        = p @ [Transfer Commission ca camt (Inr tx1),
               Wait Commission tx1 1 60000 (Inr (Some r1))]
      \<and> status r1 = Some 1)
   \<and> Wait Commission ''0xc1'' 1 60000 (Inr (Some (revertedReceipt 100)))
       \<in> set (snd (demoRun (Inr (Some (revertedReceipt 100)))
                      (Inr (Some (confirmedReceipt 101))) demoRequest))
   \<and> status (revertedReceipt 100) \<noteq> Some 1
   \<and> length (filter isTransfer
        (snd (demoRun (Inr (Some (revertedReceipt 100)))
                (Inr (Some (confirmedReceipt 101))) demoRequest))) = 1"
proof -
  let ?ok = "demoRun (Inr (Some (confirmedReceipt 100))) (Inr (Some (confirmedReceipt 101)))
               demoRequest"
  let ?bad = "demoRun (Inr (Some (revertedReceipt 100))) (Inr (Some (confirmedReceipt 101)))
                demoRequest"
  have ok: "signPayment demoConfig demoIdentity
              (demoClient (Inr (Some (confirmedReceipt 100))) (Inr (Some (confirmedReceipt 101))))
              demoRequest = (fst ?ok, snd ?ok)"
    by (simp add: demoRun_def)
  have bad: "signPayment demoConfig demoIdentity
              (demoClient (Inr (Some (revertedReceipt 100))) (Inr (Some (confirmedReceipt 101))))
              demoRequest = (fst ?bad, snd ?bad)"
    by (simp add: demoRun_def)
  have split_ok: "snd ?ok =
      (demoPrelude @ [Transfer Commission ''0xC0'' ''75000'' (Inr ''0xc1''),
                      Wait Commission ''0xc1'' 1 60000 (Inr (Some (confirmedReceipt 100)))])
      @ Transfer Merchant ''0xM1'' ''14925000'' (Inr ''0xm2'')
        # [Wait Merchant ''0xm2'' 1 60000 (Inr (Some (confirmedReceipt 101)))]"
    by (simp add: run_success)
  have first: "\<exists>p ca camt tx1 r1.
      demoPrelude @ [Transfer Commission ''0xC0'' ''75000'' (Inr ''0xc1''),
                     Wait Commission ''0xc1'' 1 60000 (Inr (Some (confirmedReceipt 100)))]
        = p @ [Transfer Commission ca camt (Inr tx1),
               Wait Commission tx1 1 60000 (Inr (Some r1))]
      \<and> status r1 = Some 1"
    using merchant_leg_after_confirmed_commission [OF ok] split_ok by blast
  have mem: "Wait Commission ''0xc1'' 1 60000 (Inr (Some (revertedReceipt 100))) \<in> set (snd ?bad)"
    by (simp add: run_commission_reverted)
  have st: "status (revertedReceipt 100) \<noteq> Some 1" by (simp add: revertedReceipt_def)
  have "length (filter isTransfer (snd ?bad)) = 1"
    using merchant_leg_after_confirmed_commission [OF bad] mem st by blast
  with first mem st show ?thesis by blast
qed

subsection \<open>What the client learns when the merchant leg fails\<close>

text \<open>
  Claim C4, as stated: when the commission leg is confirmed and the merchant leg then
  fails, the error response includes the commission leg's transaction hash. It does
  not: the commission is sent as \<open>0xc1\<close> and confirmed with status 1, the merchant
  transfer is sent and its receipt has status 0, and the response is the document
  \<^verbatim>\<open>{error: 'Payment failed', message: 'Merchant transaction failed on-chain'}\<close> with
  status 500, in which \<open>0xc1\<close> does not occur.
\<close>

theorem merchant_failure_counterexample:
  "snd (demoRun (Inr (Some (confirmedReceipt 100))) (Inr (Some (revertedReceipt 101)))
          demoRequest)
     = demoPrelude @
       [Transfer Commission ''0xC0'' ''75000'' (Inr ''0xc1''),
        Wait Commission ''0xc1'' 1 60000 (Inr (Some (confirmedReceipt 100))),
        Transfer Merchant ''0xM1'' ''14925000'' (Inr ''0xm2''),
        Wait Merchant ''0xm2'' 1 60000 (Inr (Some (revertedReceipt 101)))]
   \<and> status (confirmedReceipt 100) = Some 1
   \<and> status (revertedReceipt 101) = Some 0
   \<and> fst (demoRun (Inr (Some (confirmedReceipt 100))) (Inr (Some (revertedReceipt 101)))
            demoRequest)
       = \<lparr>statusCode = 500, body = [(''error'', JString ''Payment failed''),
            (''message'', JString ''Merchant transaction failed on-chain'')]\<rparr>
   \<and> \<not> mentions (fst (demoRun (Inr (Some (confirmedReceipt 100)))
                        (Inr (Some (revertedReceipt 101))) demoRequest)) ''0xc1''"
proof -
  have "\<not> mentions \<lparr>statusCode = 500, body = [(''error'', JString ''Payment failed''),
            (''message'', JString ''Merchant transaction failed on-chain'')]\<rparr> ''0xc1''"
    by code_simp
  moreover have "status (confirmedReceipt 100) = Some 1"
    by (simp add: confirmedReceipt_def)
  moreover have "status (revertedReceipt 101) = Some 0"
    by (simp add: revertedReceipt_def)
  ultimately show ?thesis
    by (simp add: run_merchant_reverted)
qed

text \<open>
  Claim C4, amended. Whenever the commission leg has confirmed successfully and the
  merchant leg then fails (its transfer or its wait throws, its receipt is null or
  has a status other than 1), the response is what the catch block makes of the
  merchant leg's error alone: status 400 \<^verbatim>\<open>Insufficient funds\<close> or status 500
  \<^verbatim>\<open>Payment failed\<close> with that error's message. Its only fields are \<^verbatim>\<open>error\<close> and
  \<^verbatim>\<open>message\<close>; it has no field for the commission leg's transaction hash.
\<close>

theorem merchant_failure_response:
  assumes "signPayment cfg ids cc req = (resp, tr)"
    and "Wait Commission tx1 1 60000 (Inr (Some r1)) \<in> set tr"
    and "status r1 = Some 1"
    and "merchantFailure (last tr) = Some err"
  shows "resp = catchBlock err \<and> map fst (body resp) = [''error'', ''message'']"
proof -
  have ne: "tr \<noteq> []" using assms(2) by auto
  from signPayment_trace [OF assms(1)]
  consider (quiet) "\<forall>e \<in> set tr. merchantFailure e = None"
    | (legs) p s0 ca camt m mamt r l where "tr = p @ l"
        "paymentLegs cc s0 ca camt m mamt = (r, l)" "\<forall>e. r = Inl e \<longrightarrow> resp = catchBlock e"
    by blast
  then have "resp = catchBlock err"
  proof cases
    case quiet
    moreover have "last tr \<in> set tr" using ne by simp
    ultimately show ?thesis using assms(4) by force
  next
    case legs
    have l: "l \<noteq> []" by (rule legs_nonempty [OF legs(2)])
    with legs(1) have "last tr = last l" by simp
    with assms(4) have "merchantFailure (last l) = Some err" by simp
    from legs_merchant_failure [OF legs(2) l this] legs(3) show ?thesis by blast
  qed
  moreover have "map fst (body (catchBlock err)) = [''error'', ''message'']"
    by (simp add: catchBlock_def)
  ultimately show ?thesis by simp
qed

text \<open>The run of the counterexample: the response is the catch block's.\<close>

theorem merchant_failure_response_witness:
  "Wait Commission ''0xc1'' 1 60000 (Inr (Some (confirmedReceipt 100)))
     \<in> set (snd (demoRun (Inr (Some (confirmedReceipt 100)))
                    (Inr (Some (revertedReceipt 101))) demoRequest))
   \<and> status (confirmedReceipt 100) = Some 1
   \<and> merchantFailure (last (snd (demoRun (Inr (Some (confirmedReceipt 100)))
                                    (Inr (Some (revertedReceipt 101))) demoRequest)))
       = Some (newError ''Merchant transaction failed on-chain'')
   \<and> fst (demoRun (Inr (Some (confirmedReceipt 100))) (Inr (Some (revertedReceipt 101)))
            demoRequest)
       = catchBlock (newError ''Merchant transaction failed on-chain'')
   \<and> map fst (body (fst (demoRun (Inr (Some (confirmedReceipt 100)))
                            (Inr (Some (revertedReceipt 101))) demoRequest)))
       = [''error'', ''message'']"
proof -
  let ?run = "demoRun (Inr (Some (confirmedReceipt 100))) (Inr (Some (revertedReceipt 101)))
                demoRequest"
  have run: "signPayment demoConfig demoIdentity
               (demoClient (Inr (Some (confirmedReceipt 100))) (Inr (Some (revertedReceipt 101))))
               demoRequest = (fst ?run, snd ?run)"
    by (simp add: demoRun_def)
  have mem: "Wait Commission ''0xc1'' 1 60000 (Inr (Some (confirmedReceipt 100)))
               \<in> set (snd ?run)"
    by (simp add: run_merchant_reverted)
  have st: "status (confirmedReceipt 100) = Some 1" by (simp add: confirmedReceipt_def)
  have "status (revertedReceipt 101) \<noteq> Some 1" by (simp add: revertedReceipt_def)
  then have fail: "merchantFailure (last (snd ?run))
                = Some (newError ''Merchant transaction failed on-chain'')"
    by (simp add: run_merchant_reverted)
  from merchant_failure_response [OF run mem st fail] mem st fail show ?thesis by blast
qed

subsection \<open>Authorization\<close>

text \<open>
  Claim C7. A request whose \<^verbatim>\<open>x-api-key\<close> header carries a credential other than the
  configured owner credential is answered with status 403 (the document
  \<^verbatim>\<open>Forbidden\<close>), and no external call is made: no transfer, no wait, no connection
  and no call of the identity service.
\<close>

theorem wrong_owner_key_forbidden:
  assumes "truthy (OWNER_API_KEY cfg)"
    and "x_api_key req = Some apiKey" and "apiKey \<noteq> []"
    and "Some apiKey \<noteq> OWNER_API_KEY cfg"
  shows "signPayment cfg ids cc req = (notOwner, []) \<and> statusCode notOwner = 403"
  using assms by (simp add: signPayment_def verifyOwnerApiKey_def notOwner_def)

theorem wrong_owner_key_forbidden_witness:
  "truthy (OWNER_API_KEY demoConfig)
   \<and> x_api_key (demoRequest\<lparr>x_api_key := Some ''guess''\<rparr>) = Some ''guess''
   \<and> ''guess'' \<noteq> [] \<and> Some ''guess'' \<noteq> OWNER_API_KEY demoConfig
   \<and> demoRun (Inr (Some (confirmedReceipt 100))) (Inr (Some (confirmedReceipt 101)))
        (demoRequest\<lparr>x_api_key := Some ''guess''\<rparr>) = (notOwner, [])
   \<and> statusCode notOwner = 403"
proof -
  have h1: "truthy (OWNER_API_KEY demoConfig)" by (simp add: truthy_def demoConfig_def)
  have h2: "x_api_key (demoRequest\<lparr>x_api_key := Some ''guess''\<rparr>) = Some ''guess''" by simp
  have h3: "''guess'' \<noteq> []" by simp
  have h4: "Some ''guess'' \<noteq> OWNER_API_KEY demoConfig" by (simp add: demoConfig_def)
  from wrong_owner_key_forbidden [OF h1 h2 h3 h4] h1 h2 h3 h4
  show ?thesis unfolding demoRun_def by blast
qed

text \<open>
  Claim C8. When no owner credential is configured, \<open>verifyOwnerApiKey\<close> returns
  true for every credential, without calling the identity service, and a request
  that carries any non-empty credential proceeds: its outcome is that of the steps
  after the owner check.
\<close>

theorem no_owner_key_fail_open:
  assumes "\<not> truthy (OWNER_API_KEY cfg)"
  shows "verifyOwnerApiKey cfg ids apiKey = (True, [])
       \<and> (x_api_key req = Some apiKey \<and> apiKey \<noteq> [] \<longrightarrow>
            signPayment cfg ids cc req =
              (case signPaymentBody cfg cc req of
                 (Inr response, t) \<Rightarrow> (response, t)
               | (Inl error, t) \<Rightarrow> (catchBlock error, t)))"
  using assms
  by (auto simp: signPayment_def verifyOwnerApiKey_def split: prod.splits sum.splits)

theorem no_owner_key_fail_open_witness:
  "\<not> truthy (OWNER_API_KEY (demoConfig\<lparr>OWNER_API_KEY := None\<rparr>))
   \<and> verifyOwnerApiKey (demoConfig\<lparr>OWNER_API_KEY := None\<rparr>) demoIdentity ''anything''
       = (True, [])
   \<and> x_api_key (demoRequest\<lparr>x_api_key := Some ''anything''\<rparr>) = Some ''anything''
   \<and> ''anything'' \<noteq> []
   \<and> signPayment (demoConfig\<lparr>OWNER_API_KEY := None\<rparr>) demoIdentity
        (demoClient (Inr (Some (confirmedReceipt 100))) (Inr (Some (confirmedReceipt 101))))
        (demoRequest\<lparr>x_api_key := Some ''anything''\<rparr>)
       = (case signPaymentBody (demoConfig\<lparr>OWNER_API_KEY := None\<rparr>)
                 (demoClient (Inr (Some (confirmedReceipt 100)))
                    (Inr (Some (confirmedReceipt 101))))
                 (demoRequest\<lparr>x_api_key := Some ''anything''\<rparr>) of
            (Inr response, t) \<Rightarrow> (response, t)
          | (Inl error, t) \<Rightarrow> (catchBlock error, t))"
proof -
  have h: "\<not> truthy (OWNER_API_KEY (demoConfig\<lparr>OWNER_API_KEY := None\<rparr>))"
    by (simp add: truthy_def)
  have k: "x_api_key (demoRequest\<lparr>x_api_key := Some ''anything''\<rparr>) = Some ''anything''"
    by simp
  have n: "''anything'' \<noteq> []" by simp
  from no_owner_key_fail_open [OF h, of demoIdentity "''anything''"
      "demoRequest\<lparr>x_api_key := Some ''anything''\<rparr>"
      "demoClient (Inr (Some (confirmedReceipt 100))) (Inr (Some (confirmedReceipt 101)))"]
    h k n
  show ?thesis by blast
qed

text \<open>
  Claim C10. A request without the \<^verbatim>\<open>x-api-key\<close> header (or with an empty one) is
  answered with status 401, the document \<^verbatim>\<open>Unauthorized\<close>, whatever the configuration:
  also when no owner credential is configured, where \<open>verifyOwnerApiKey\<close> would
  accept any credential. The header is tested before \<open>verifyOwnerApiKey\<close> is called.
\<close>

theorem missing_header_unauthorized:
  assumes "\<not> truthy (x_api_key req)"
  shows "signPayment cfg ids cc req = (missingApiKey, [])
       \<and> statusCode missingApiKey = 401
       \<and> map_of (body missingApiKey) ''error'' = Some (JString ''Unauthorized'')"
  using assms
  by (auto simp: signPayment_def truthy_def missingApiKey_def split: option.splits)

theorem missing_header_unauthorized_witness:
  "\<not> truthy (x_api_key (demoRequest\<lparr>x_api_key := None\<rparr>))
   \<and> \<not> truthy (OWNER_API_KEY (demoConfig\<lparr>OWNER_API_KEY := None\<rparr>))
   \<and> signPayment (demoConfig\<lparr>OWNER_API_KEY := None\<rparr>) demoIdentity
        (demoClient (Inr (Some (confirmedReceipt 100))) (Inr (Some (confirmedReceipt 101))))
        (demoRequest\<lparr>x_api_key := None\<rparr>) = (missingApiKey, [])
   \<and> statusCode missingApiKey = 401"
proof -
  have h: "\<not> truthy (x_api_key (demoRequest\<lparr>x_api_key := None\<rparr>))"
    by (simp add: truthy_def)
  have o: "\<not> truthy (OWNER_API_KEY (demoConfig\<lparr>OWNER_API_KEY := None\<rparr>))"
    by (simp add: truthy_def)
  from missing_header_unauthorized [OF h] h o show ?thesis by blast
qed

subsection \<open>Validation\<close>

text \<open>
  Claim C9. For a request in which one or more of the four required fields is
  missing (or empty), whatever chain it names, supported or not, the validation
  answers with the missing-fields error: status 400 and a message that lists the
  four required fields. The chain and token checks are not reached. This is the
  outcome of the steps after the owner check, and the response of the handler for
  every request that passes the owner check.
\<close>

theorem missing_fields_before_chain_check:
  assumes "\<not> truthy (merchant_address req) \<or> \<not> truthy (total_amount req)
           \<or> \<not> truthy (token req) \<or> \<not> truthy (chain req)"
  shows "signPaymentBody cfg cc req = (Inr missingFields, [])
       \<and> (\<forall>k. x_api_key req = Some k \<and> k \<noteq> [] \<and> fst (verifyOwnerApiKey cfg ids k)
              \<longrightarrow> fst (signPayment cfg ids cc req) = missingFields)
       \<and> statusCode missingFields = 400
       \<and> map_of (body missingFields) ''message''
           = Some (JString ''Required fields: merchant_address, total_amount, token, chain'')"
proof -
  have b: "signPaymentBody cfg cc req = (Inr missingFields, [])"
    using assms
    by (auto simp: signPaymentBody_def truthy_def split: option.splits)
  have "\<forall>k. x_api_key req = Some k \<and> k \<noteq> [] \<and> fst (verifyOwnerApiKey cfg ids k)
              \<longrightarrow> fst (signPayment cfg ids cc req) = missingFields"
    using b by (auto simp: signPayment_def split: prod.splits)
  then show ?thesis using b by (simp add: missingFields_def)
qed

text \<open>
  A request without the token that names the chain \<open>solana\<close>, which is not a key of
  the RPC table.
\<close>

theorem missing_fields_before_chain_check_witness:
  "\<not> truthy (token (demoRequest\<lparr>token := None, chain := Some ''solana''\<rparr>))
   \<and> \<not> truthyProp (getProp (RPCS demoConfig) ''solana'')
   \<and> demoRun (Inr (Some (confirmedReceipt 100))) (Inr (Some (confirmedReceipt 101)))
        (demoRequest\<lparr>token := None, chain := Some ''solana''\<rparr>)
       = (missingFields, [Fetch ''https://api.agentgatepay.com/v1/users/me'' ''owner-key''])
   \<and> statusCode missingFields = 400"
proof -
  let ?req = "demoRequest\<lparr>token := None, chain := Some ''solana''\<rparr>"
  let ?cc = "demoClient (Inr (Some (confirmedReceipt 100))) (Inr (Some (confirmedReceipt 101)))"
  have h: "\<not> truthy (token ?req)" by (simp add: truthy_def)
  then have h': "\<not> truthy (merchant_address ?req) \<or> \<not> truthy (total_amount ?req)
                 \<or> \<not> truthy (token ?req) \<or> \<not> truthy (chain ?req)"
    by blast
  have u: "\<not> truthyProp (getProp (RPCS demoConfig) ''solana'')"
    by (simp add: truthyProp_def getProp_def RPCS_def objectPrototype_def)
  have v: "verifyOwnerApiKey demoConfig demoIdentity ''owner-key''
             = (True, [Fetch ''https://api.agentgatepay.com/v1/users/me'' ''owner-key''])"
    by (simp add: verifyOwnerApiKey_def truthy_def demoConfig_def demoIdentity_def
        AGENTPAY_API_URL_def orDefault_def)
  have key: "x_api_key ?req = Some ''owner-key''" by (simp add: demoRequest_def)
  have b: "signPaymentBody demoConfig ?cc ?req = (Inr missingFields, [])"
    using missing_fields_before_chain_check [OF h', of demoConfig ?cc demoIdentity] by blast
  have "demoRun (Inr (Some (confirmedReceipt 100))) (Inr (Some (confirmedReceipt 101))) ?req
          = (missingFields, [Fetch ''https://api.agentgatepay.com/v1/users/me'' ''owner-key''])"
    by (simp add: demoRun_def signPayment_def key v b)
  with h u show ?thesis by (simp add: missingFields_def)
qed

subsection \<open>Where the handler departs from its documentation\<close>

text \<open>
  Claim C5 (the code departs from it). The handler has no check of the amount. The
  amount \<open>0\<close> is not a positive integer, yet the request is not rejected: the
  client is connected, both transfers are submitted with the amount \<open>0\<close>, and the
  response is the success document. The amount \<open>abc\<close> makes \<^verbatim>\<open>BigInt\<close> throw, and
  the answer is status 500 \<^verbatim>\<open>Payment failed\<close>, not a validation error with
  status 400.
\<close>

theorem amount_not_validated:
  "statusCode (fst (demoRun (Inr (Some (confirmedReceipt 100)))
                      (Inr (Some (confirmedReceipt 101)))
                      (demoRequest\<lparr>total_amount := Some ''0''\<rparr>))) = 200
   \<and> snd (demoRun (Inr (Some (confirmedReceipt 100))) (Inr (Some (confirmedReceipt 101)))
            (demoRequest\<lparr>total_amount := Some ''0''\<rparr>))
       = demoPrelude @
         [Transfer Commission ''0xC0'' ''0'' (Inr ''0xc1''),
          Wait Commission ''0xc1'' 1 60000 (Inr (Some (confirmedReceipt 100))),
          Transfer Merchant ''0xM1'' ''0'' (Inr ''0xm2''),
          Wait Merchant ''0xm2'' 1 60000 (Inr (Some (confirmedReceipt 101)))]
   \<and> fst (demoRun (Inr (Some (confirmedReceipt 100))) (Inr (Some (confirmedReceipt 101)))
            (demoRequest\<lparr>total_amount := Some ''abc''\<rparr>))
       = \<lparr>statusCode = 500, body = [(''error'', JString ''Payment failed''),
            (''message'', JString ''Cannot convert abc to a BigInt'')]\<rparr>"
  by (simp add: run_zero_amount run_unparsable_amount)

text \<open>
  Claim C6 (the code departs from it). The catch block knows one error code,
  \<^verbatim>\<open>INSUFFICIENT_FUNDS\<close>. A confirmation wait that throws the timeout error (code
  \<^verbatim>\<open>TIMEOUT\<close>) is answered with status 500 and the error \<^verbatim>\<open>Payment failed\<close>, the same
  status and the same error as a commission receipt that reports the on-chain
  failure; only the message text differs.
\<close>

theorem timeout_reported_as_payment_failed:
  "errorCode timeoutError = Some ''TIMEOUT''
   \<and> fst (demoRun (Inl timeoutError) (Inr (Some (confirmedReceipt 101))) demoRequest)
       = \<lparr>statusCode = 500, body = [(''error'', JString ''Payment failed''),
            (''message'', JString ''wait for transaction timeout'')]\<rparr>
   \<and> fst (demoRun (Inr (Some (revertedReceipt 100))) (Inr (Some (confirmedReceipt 101)))
            demoRequest)
       = \<lparr>statusCode = 500, body = [(''error'', JString ''Payment failed''),
            (''message'', JString ''Commission transaction failed on-chain'')]\<rparr>"
proof -
  have "errorCode timeoutError = Some ''TIMEOUT''" by (simp add: timeoutError_def)
  then show ?thesis by (simp add: run_commission_timeout run_commission_reverted)
qed

end
